theory Spec2Isabelle
  imports Main
begin

section \<open>Data of the shell (main.cpp)\<close>

text \<open>
  \<^verbatim>\<open>struct command { string file; vector<string> args; };\<close>
\<close>

record command =
  "file" :: string
  args :: "string list"

text \<open>
  The disposition of a signal: the two constants the shell passes to \<^verbatim>\<open>signal()\<close>
  and a handler function (numbered).
\<close>

datatype sighandler = SIG_DFL | SIG_IGN | Handler nat

text \<open>
  The status a terminated child leaves behind for \<^verbatim>\<open>wait\<close>: an exit code, or the number
  of the signal that killed it.
\<close>

datatype wstatus = Exited nat | Signaled nat

text \<open>
  A \<^verbatim>\<open>char *\<close> as the child uses it: the null pointer, a pointer to a C string (the
  characters that are read from it, up to the terminating NUL), or the content of an
  array slot that was never written.
\<close>

datatype cptr = nullptr | CStr string | indeterminate

text \<open>
  \<^verbatim>\<open>s.c_str()\<close>: a pointer to the characters of \<open>s\<close> followed by a NUL. Read as a C
  string, as \<^verbatim>\<open>execvp\<close> reads it, it ends at the first NUL, which may be one that
  \<open>s\<close> itself holds.
\<close>

definition c_str :: "string \<Rightarrow> cptr" where
  "c_str s = CStr (takeWhile (\<lambda>c. c \<noteq> CHR 0x00) s)"

text \<open>What is inserted into an output stream with \<^verbatim>\<open><<\<close>: a string, an integer, \<^verbatim>\<open>endl\<close>.\<close>

datatype item = Str string | Num int | Endl

text \<open>The process-control calls the shell makes, each with what it returned.\<close>

datatype syscall =
    Fork int
  | Execvp cptr "cptr list"
  | Signal_SIGINT sighandler
  | Wait_any "int option"
  | Exit int

text \<open>
  The process as the code sees it: its pid, what it has written to \<^verbatim>\<open>cout\<close> and
  \<^verbatim>\<open>cerr\<close>, its SIGINT disposition, its SIGCHLD disposition (the shell never sets it: it
  is the one the process was started with), its children that have not been waited for,
  the terminations of children that lie ahead (in the order they happen; a child without
  an entry never terminates), and the calls made so far, oldest first.
\<close>

record world =
  mypid :: int
  cout :: "item list"
  cerr :: "item list"
  sigint :: sighandler
  sigchld :: sighandler
  children :: "int list"
  pending :: "(int \<times> wstatus) list"
  calls :: "syscall list"

text \<open>
  How a piece of code ends: it returns a value, throws a string, replaces the process
  image (\<^verbatim>\<open>execvp\<close> succeeded), terminates the process (\<^verbatim>\<open>exit\<close>), or blocks for ever.
\<close>

datatype 'a outcome =
    Returns 'a
  | Throws string
  | Execs cptr "cptr list"
  | Exits int
  | Blocks

section \<open>The operating system, as far as the shell calls it\<close>

text \<open>
  What \<^verbatim>\<open>fork()\<close> does is not decided by the program: it fails, or the process that
  runs on is the parent (and gets the child's pid), or it is the new child (which gets 0
  and has the given pid).
\<close>

datatype fork_reply = Failed | Parent int | Child int

definition getpid :: "world \<Rightarrow> int" where
  "getpid w = mypid w"

definition fork :: "fork_reply \<Rightarrow> world \<Rightarrow> int \<times> world" where
  "fork fr w =
     (case fr of
        Failed \<Rightarrow> (- 1, w\<lparr>calls := calls w @ [Fork (- 1)]\<rparr>)
      | Parent p \<Rightarrow> (p, w\<lparr>children := children w @ [p], calls := calls w @ [Fork p]\<rparr>)
      | Child p \<Rightarrow>
          (0, w\<lparr>mypid := p, children := [], pending := [], calls := calls w @ [Fork 0]\<rparr>))"

definition signal_SIGINT :: "sighandler \<Rightarrow> world \<Rightarrow> world" where
  "signal_SIGINT h w = w\<lparr>sigint := h, calls := calls w @ [Signal_SIGINT h]\<rparr>"

text \<open>
  The first termination ahead that belongs to one of the given children, and the
  terminations that remain.
\<close>

fun reap :: "int list \<Rightarrow> (int \<times> wstatus) list \<Rightarrow>
    ((int \<times> wstatus) \<times> (int \<times> wstatus) list) option" where
  "reap cs [] = None"
| "reap cs (e # es) =
     (if fst e \<in> set cs then Some (e, es)
      else (case reap cs es of None \<Rightarrow> None | Some (x, r) \<Rightarrow> Some (x, e # r)))"

text \<open>
  The terminations that remain once every one of the given children has terminated;
  \<open>None\<close> if one of them never does.
\<close>

fun reap_all :: "int list \<Rightarrow> (int \<times> wstatus) list \<Rightarrow> (int \<times> wstatus) list option" where
  "reap_all [] ts = Some ts"
| "reap_all (c # cs) ts =
     (case reap [c] ts of None \<Rightarrow> None | Some (e, rest) \<Rightarrow> reap_all cs rest)"

text \<open>
  \<^verbatim>\<open>wait(nullptr)\<close>: with no child it fails at once (-1, ECHILD). In a process in which
  SIGCHLD is ignored, terminated children leave no status behind: the call blocks until
  all children have terminated and then fails (-1, ECHILD). Otherwise it blocks until
  any one child terminates and returns that child's pid. The status is not stored
  anywhere, the argument being null. \<open>None\<close> is a call that never returns.
\<close>

definition wait :: "world \<Rightarrow> int option \<times> world" where
  "wait w =
     (if children w = [] then (Some (- 1), w\<lparr>calls := calls w @ [Wait_any (Some (- 1))]\<rparr>)
      else if sigchld w = SIG_IGN then
        (case reap_all (children w) (pending w) of
           None \<Rightarrow> (None, w\<lparr>calls := calls w @ [Wait_any None]\<rparr>)
         | Some rest \<Rightarrow>
             (Some (- 1), w\<lparr>children := [], pending := rest,
                            calls := calls w @ [Wait_any (Some (- 1))]\<rparr>))
      else (case reap (children w) (pending w) of
              None \<Rightarrow> (None, w\<lparr>calls := calls w @ [Wait_any None]\<rparr>)
            | Some ((p, st), rest) \<Rightarrow>
                (Some p, w\<lparr>children := remove1 p (children w), pending := rest,
                           calls := calls w @ [Wait_any (Some p)]\<rparr>)))"

text \<open>
  \<^verbatim>\<open>execvp(file, argv)\<close>: the reply \<open>None\<close> is a replaced image, the call does not return;
  \<open>Some d\<close> is a failure, the call returns -1 and \<^verbatim>\<open>strerror(errno)\<close> is \<open>d\<close>.
\<close>

definition execvp :: "string option \<Rightarrow> cptr \<Rightarrow> cptr list \<Rightarrow> world \<Rightarrow> int option \<times> world" where
  "execvp ex f argv w =
     (case ex of None \<Rightarrow> None | Some d \<Rightarrow> Some (- 1), w\<lparr>calls := calls w @ [Execvp f argv]\<rparr>)"

definition exit :: "int \<Rightarrow> world \<Rightarrow> 'a outcome \<times> world" where
  "exit status w = (Exits status, w\<lparr>calls := calls w @ [Exit status]\<rparr>)"

text \<open>
  The exit code a parent can read from the status of a child that called
  \<^verbatim>\<open>exit(status)\<close>: the low eight bits.
\<close>

definition wexitstatus :: "int \<Rightarrow> nat" where
  "wexitstatus status = nat (status mod 256)"

text \<open>What the parent of a process can learn of the way the process ended.\<close>

fun observed :: "'a outcome \<Rightarrow> wstatus option" where
  "observed (Exits status) = Some (Exited (wexitstatus status))"
| "observed _ = None"

section \<open>parse\_input\<close>

text \<open>
  \<^verbatim>\<open>
  size_t last_index = 0;
  for (size_t i = 0; i < input.length(); ++i) {
      const auto &ch = input[i];
      if (ch == ' ') {
          parts.emplace_back(input.substr(last_index, i - last_index));
          last_index = i + 1;
      }
  }
  \<close>
\<close>

definition substr :: "string \<Rightarrow> nat \<Rightarrow> nat \<Rightarrow> string" where
  "substr s pos n = take n (drop pos s)"

function parse_loop :: "string \<Rightarrow> nat \<Rightarrow> nat \<Rightarrow> string list \<Rightarrow> nat \<times> string list" where
  "parse_loop input i last_index parts =
     (if i < length input then
        (if input ! i = CHR '' '' then
           parse_loop input (i + 1) (i + 1) (parts @ [substr input last_index (i - last_index)])
         else parse_loop input (i + 1) last_index parts)
      else (last_index, parts))"
  by pat_completeness auto
termination
  by (relation "measure (\<lambda>(input, i, last_index, parts). length input - i)") auto

declare parse_loop.simps [simp del]

text \<open>
  \<^verbatim>\<open>
  if (last_index < input.length()) parts.emplace_back(input.substr(last_index));
  if (parts.size() == 0) throw "Empty command"s;
  return { .file = parts[0], .args = { parts.cbegin() + 1, parts.cend() } };
  \<close>
  The thrown string is \<open>Inl\<close>.
\<close>

definition parse_input :: "string \<Rightarrow> string + command" where
  "parse_input input =
     (let (last_index, parts0) = parse_loop input 0 0 [];
          parts = (if last_index < length input
                   then parts0 @ [drop last_index input] else parts0)
      in if length parts = 0 then Inl ''Empty command''
         else Inr \<lparr>file = parts ! 0, args = tl parts\<rparr>)"

section \<open>exec\_command\<close>

definition DEBUG :: bool where
  "DEBUG = True"

definition put :: "item list \<Rightarrow> world \<Rightarrow> world" where
  "put xs w = w\<lparr>cout := cout w @ xs\<rparr>"

text \<open>\<^verbatim>\<open>for (const auto &arg : cmd.args) cout << arg << " ";\<close>\<close>

primrec print_args :: "string list \<Rightarrow> world \<Rightarrow> world" where
  "print_args [] w = w"
| "print_args (arg # rest) w = print_args rest (put [Str arg, Str '' ''] w)"

text \<open>
  \<^verbatim>\<open>
  char * argv[cmd.args.size() + 2];
  argv[0] = const_cast<char *>(cmd.file.c_str());
  for (size_t i = 0; i < cmd.args.size(); ++i)
      argv[i + 1] = const_cast<char *>(cmd.args[i].c_str());
  argv[cmd.args.size() + 1] = nullptr;
  \<close>
\<close>

function fill_argv :: "string list \<Rightarrow> nat \<Rightarrow> cptr list \<Rightarrow> cptr list" where
  "fill_argv as i argv =
     (if i < length as then fill_argv as (i + 1) (argv[i + 1 := c_str (as ! i)]) else argv)"
  by pat_completeness auto
termination
  by (relation "measure (\<lambda>(as, i, argv). length as - i)") auto

declare fill_argv.simps [simp del]

definition build_argv :: "command \<Rightarrow> cptr list" where
  "build_argv cmd =
     (let argv0 = replicate (length (args cmd) + 2) indeterminate;
          argv1 = argv0[0 := c_str (file cmd)];
          argv2 = fill_argv (args cmd) 0 argv1
      in argv2[length (args cmd) + 1 := nullptr])"

text \<open>
  The function itself. \<open>fr\<close> is what \<^verbatim>\<open>fork\<close> does in this call and \<open>ex\<close> what
  \<^verbatim>\<open>execvp\<close> does if the child gets there. The source returns \<^verbatim>\<open>void\<close>.
\<close>

definition exec_command ::
    "fork_reply \<Rightarrow> string option \<Rightarrow> command \<Rightarrow> world \<Rightarrow> unit outcome \<times> world" where
  "exec_command fr ex cmd w0 =
     (let w1 = (if DEBUG then
                  put [Endl]
                    (print_args (args cmd)
                      (put [Str ''['', Num (getpid w0),
                            Str (''] command is:'' @ [CHR 0x0A, CHR 0x09] @ ''file = ''),
                            Str (file cmd),
                            Str ([CHR 0x0A, CHR 0x09] @ ''args = '')] w0))
                else w0);
          (pid, w2) = fork fr w1
      in if pid = 0 then
           (let w3 = (if DEBUG then
                        put [Str ''['', Num (getpid w2), Str ''] in child after fork()'', Endl] w2
                      else w2);
                argv = build_argv cmd
            in (case execvp ex (c_str (file cmd)) argv w3 of
                  (None, w4) \<Rightarrow> (Execs (c_str (file cmd)) argv, w4)
                | (Some r, w4) \<Rightarrow>
                    exit (- 1)
                      (put [Str ''execvp failed with error: '', Str (the ex), Endl] w4)))
         else
           (let w3 = (if DEBUG then
                        put [Str ''['', Num (getpid w2), Str ''] in parent after fork()'', Endl] w2
                      else w2);
                w4 = signal_SIGINT SIG_IGN w3
            in (case wait w4 of
                  (None, w5) \<Rightarrow> (Blocks, w5)
                | (Some r, w5) \<Rightarrow>
                    (let w6 = signal_SIGINT SIG_DFL w5;
                         w7 = (if DEBUG then
                                 put [Str ''['', Num (getpid w6), Str ''] after wait()'', Endl] w6
                               else w6)
                     in (Returns (), w7)))))"

section \<open>The prompt loop\<close>

text \<open>
  The input stream: the characters not yet read and the flag that \<^verbatim>\<open>in.eof()\<close> reads.
\<close>

record istream =
  buf :: string
  eofbit :: bool

text \<open>
  \<^verbatim>\<open>getline(in, input)\<close> on an empty string: the characters up to the next newline,
  which is taken from the stream and dropped. Where the stream ends first, what is left
  is the line and the flag is set. A stream whose flag is set gives nothing.
\<close>

definition getline :: "istream \<Rightarrow> string \<times> istream" where
  "getline ins =
     (if eofbit ins then ([], ins)
      else if CHR 0x0A \<in> set (buf ins) then
        (takeWhile (\<lambda>c. c \<noteq> CHR 0x0A) (buf ins),
         ins\<lparr>buf := tl (dropWhile (\<lambda>c. c \<noteq> CHR 0x0A) (buf ins))\<rparr>)
      else (buf ins, ins\<lparr>buf := [], eofbit := True\<rparr>))"

text \<open>
  \<^verbatim>\<open>
  bool repl_loop(istream &in) {
      cout << "> ";
      string input;
      getline(in, input);
      auto cmd = parse_input(input);
      if (cmd.file == "exit"s) { cout << "exiting!" << endl; return false; }
      exec_command(cmd);
      return true;
  }
  \<close>
  \<open>os\<close> is what \<^verbatim>\<open>fork\<close> and \<^verbatim>\<open>execvp\<close> do in this iteration.
\<close>

definition repl_loop ::
    "fork_reply \<times> string option \<Rightarrow> istream \<Rightarrow> world \<Rightarrow> bool outcome \<times> istream \<times> world" where
  "repl_loop os ins w0 =
     (let w1 = put [Str ''> ''] w0;
          (input, ins') = getline ins
      in (case parse_input input of
            Inl errstr \<Rightarrow> (Throws errstr, ins', w1)
          | Inr cmd \<Rightarrow>
              if file cmd = ''exit'' then
                (Returns False, ins', put [Str ''exiting!'', Endl] w1)
              else
                (let (out, w2) = exec_command (fst os) (snd os) cmd w1
                 in (map_outcome (\<lambda>_. True) out, ins', w2))))"

text \<open>
  What bounds the number of iterations still to come: every \<^verbatim>\<open>getline\<close> on a stream
  whose flag is not set takes a character from it or sets the flag.
\<close>

definition left :: "istream \<Rightarrow> nat" where
  "left ins = (if eofbit ins then 0 else Suc (length (buf ins)))"

text \<open>
  \<^verbatim>\<open>while (!in.eof()) { if (!repl_loop(in)) break; }\<close>
  \<open>os n\<close> is what the operating system does in the iteration number \<open>n\<close>.
\<close>

function main_loop ::
    "(nat \<Rightarrow> fork_reply \<times> string option) \<Rightarrow> nat \<Rightarrow> istream \<Rightarrow> world \<Rightarrow>
     unit outcome \<times> istream \<times> world" where
  "main_loop os n ins w =
     (if eofbit ins then (Returns (), ins, w)
      else (case repl_loop (os n) ins w of
              (Returns True, ins', w') \<Rightarrow> main_loop os (Suc n) ins' w'
            | (Returns False, ins', w') \<Rightarrow> (Returns (), ins', w')
            | (out, ins', w') \<Rightarrow> (map_outcome (\<lambda>_. ()) out, ins', w')))"
  by pat_completeness auto
termination
proof (relation "measure (\<lambda>(os, n, ins, w). left ins)", goal_cases)
  case 1
  show ?case by simp
next
  case (2 os n ins w x y x1 ins' w')
  from 2(2) 2(5) have "ins' = snd (getline ins)"
    by (auto simp: repl_loop_def Let_def split: prod.splits sum.splits if_splits)
  moreover have "left (snd (getline ins)) < left ins"
  proof (cases "CHR 0x0A \<in> set (buf ins)")
    case True
    then have "dropWhile (\<lambda>c. c \<noteq> CHR 0x0A) (buf ins) \<noteq> []" by simp
    then have "length (tl (dropWhile (\<lambda>c. c \<noteq> CHR 0x0A) (buf ins)))
        < length (dropWhile (\<lambda>c. c \<noteq> CHR 0x0A) (buf ins))" by simp
    also have "\<dots> \<le> length (buf ins)" by (rule length_dropWhile_le)
    finally show ?thesis using 2(1) True by (simp add: getline_def left_def)
  next
    case False
    with 2(1) show ?thesis by (simp add: getline_def left_def)
  qed
  ultimately show ?case by simp
qed

declare main_loop.simps [simp del]

text \<open>
  \<^verbatim>\<open>
  int main() {
      try { ... the loop ... }
      catch (const string &errstr) { cerr << "Fatal error: " << errstr << endl; }
  }
  \<close>
  \<^verbatim>\<open>main\<close> returns 0 where it returns.
\<close>

definition main ::
    "(nat \<Rightarrow> fork_reply \<times> string option) \<Rightarrow> istream \<Rightarrow> world \<Rightarrow>
     int outcome \<times> istream \<times> world" where
  "main os ins w =
     (case main_loop os 0 ins w of
        (Throws errstr, ins', w') \<Rightarrow>
          (Returns 0, ins', w'\<lparr>cerr := cerr w' @ [Str ''Fatal error: '', Str errstr, Endl]\<rparr>)
      | (out, ins', w') \<Rightarrow> (map_outcome (\<lambda>_. 0) out, ins', w'))"

section \<open>Auxiliary notions for stating the properties\<close>

text \<open>
  A shell process that has just been started from a terminal: nothing written yet, the
  default dispositions for SIGINT and SIGCHLD, no children; \<open>ts\<close> are the terminations
  to come.
\<close>

definition shell0 :: "(int \<times> wstatus) list \<Rightarrow> world" where
  "shell0 ts = \<lparr>mypid = 50, cout = [], cerr = [], sigint = SIG_DFL, sigchld = SIG_DFL,
     children = [],
     pending = ts, calls = []\<rparr>"

text \<open>What \<^verbatim>\<open>fork()\<close> returns in the process that runs on.\<close>

definition fork_value :: "fork_reply \<Rightarrow> int" where
  "fork_value fr = (case fr of Failed \<Rightarrow> - 1 | Parent p \<Rightarrow> p | Child p \<Rightarrow> 0)"

text \<open>
  The same process in a run in which its children end with other statuses: \<open>g\<close>
  rewrites the status of every termination to come.
\<close>

definition with_statuses :: "(wstatus \<Rightarrow> wstatus) \<Rightarrow> world \<Rightarrow> world" where
  "with_statuses g w = w\<lparr>pending := map (\<lambda>(p, st). (p, g st)) (pending w)\<rparr>"

text \<open>The number of \<^verbatim>\<open>fork\<close> calls in a list of calls.\<close>

fun fork_calls :: "syscall list \<Rightarrow> nat" where
  "fork_calls [] = 0"
| "fork_calls (Fork r # cs) = Suc (fork_calls cs)"
| "fork_calls (c # cs) = fork_calls cs"

section \<open>Facts about the parts\<close>

lemma print_args_cout: "print_args as w = w\<lparr>cout := cout w @ concat (map (\<lambda>a. [Str a, Str '' '']) as)\<rparr>"
  by (induction as arbitrary: w) (simp_all add: put_def)

lemma fill_argv_eq:
  "i \<le> length as \<Longrightarrow> length argv = length as + 2 \<Longrightarrow>
   fill_argv as i argv = take (i + 1) argv @ map c_str (drop i as) @ drop (length as + 1) argv"
proof (induction as i argv rule: fill_argv.induct)
  case (1 as i argv)
  show ?case
  proof (cases "i < length as")
    case True
    have step: "fill_argv as i argv = fill_argv as (i + 1) (argv[i + 1 := c_str (as ! i)])"
      using True by (subst fill_argv.simps) simp
    have ih: "fill_argv as (i + 1) (argv[i + 1 := c_str (as ! i)]) =
        take (i + 2) (argv[i + 1 := c_str (as ! i)]) @ map c_str (drop (i + 1) as)
          @ drop (length as + 1) (argv[i + 1 := c_str (as ! i)])"
      using "1.IH" [OF True] True "1.prems" by simp
    have t: "take (i + 2) (argv[i + 1 := c_str (as ! i)]) = take (i + 1) argv @ [c_str (as ! i)]"
      using True "1.prems" by (simp add: take_Suc_conv_app_nth)
    have d: "drop (length as + 1) (argv[i + 1 := c_str (as ! i)]) = drop (length as + 1) argv"
      using True by simp
    have "drop i as = as ! i # drop (i + 1) as"
      using True by (simp add: Cons_nth_drop_Suc)
    then have m: "map c_str (drop i as) = c_str (as ! i) # map c_str (drop (i + 1) as)"
      by simp
    show ?thesis by (simp only: step ih t d m append_assoc append_Cons append_Nil)
  next
    case False
    with "1.prems" have e: "i = length as" by simp
    have f: "fill_argv as i argv = argv"
      using False by (subst fill_argv.simps) simp
    have m: "map c_str (drop i as) = []"
      using e by simp
    show ?thesis
      unfolding f m using e by simp
  qed
qed

lemma drop_Cons_replicate: "drop n (x # replicate n x) = [x]"
  by (induction n) simp_all

lemma build_argv_eq: "build_argv cmd = c_str (file cmd) # map c_str (args cmd) @ [nullptr]"
proof -
  let ?n = "length (args cmd)"
  let ?a1 = "(replicate (?n + 2) indeterminate)[0 := c_str (file cmd)]"
  have "fill_argv (args cmd) 0 ?a1 = take 1 ?a1 @ map c_str (args cmd) @ drop (?n + 1) ?a1"
    using fill_argv_eq [of 0 "args cmd" ?a1] by simp
  then have "fill_argv (args cmd) 0 ?a1 = c_str (file cmd) # map c_str (args cmd) @ [indeterminate]"
    by (simp add: drop_Cons_replicate)
  then show ?thesis
    by (simp add: build_argv_def Let_def list_update_append nth_append)
qed

lemma fork_calls_append: "fork_calls (xs @ ys) = fork_calls xs + fork_calls ys"
  by (induction xs rule: fork_calls.induct) simp_all

lemma reap_member: "reap cs ts = Some ((q, st), r) \<Longrightarrow> q \<in> set cs"
  by (induction ts arbitrary: r) (auto split: if_splits option.splits)

lemma reap_None: "reap cs ts = None \<longleftrightarrow> (\<forall>e \<in> set ts. fst e \<notin> set cs)"
  by (induction ts) (auto split: option.splits)

lemma reap_statuses:
  "reap cs (map (\<lambda>(p, st). (p, g st)) ts) =
     (case reap cs ts of None \<Rightarrow> None
      | Some ((p, st), r) \<Rightarrow> Some ((p, g st), map (\<lambda>(p, st). (p, g st)) r))"
  by (induction ts) (auto split: option.splits prod.splits)

lemma reap_all_statuses:
  "reap_all cs (map (\<lambda>(p, st). (p, g st)) ts) =
     map_option (map (\<lambda>(p, st). (p, g st))) (reap_all cs ts)"
  by (induction cs arbitrary: ts) (auto simp: reap_statuses split: option.splits prod.splits)

lemma wait_statuses:
  "wait (with_statuses g w) = (fst (wait w), with_statuses g (snd (wait w)))"
  by (auto simp: wait_def with_statuses_def reap_statuses reap_all_statuses
        split: option.splits prod.splits)

lemmas exec_defs = exec_command_def fork_def execvp_def exit_def put_def signal_SIGINT_def
  getpid_def print_args_cout Let_def DEBUG_def

lemma wait_Some:
  "wait w = (Some r, w') \<Longrightarrow>
     sigint w' = sigint w \<and> cout w' = cout w \<and> cerr w' = cerr w \<and> mypid w' = mypid w
     \<and> calls w' = calls w @ [Wait_any (Some r)]"
  by (auto simp: wait_def split: if_splits option.splits prod.splits)

lemma wait_None:
  "wait w = (None, w') \<Longrightarrow> w' = w\<lparr>calls := calls w @ [Wait_any None]\<rparr>"
  by (auto simp: wait_def split: if_splits option.splits prod.splits)

lemma put_statuses: "put xs (with_statuses g w) = with_statuses g (put xs w)"
  by (simp add: put_def with_statuses_def)

lemma print_args_statuses: "print_args as (with_statuses g w) = with_statuses g (print_args as w)"
  by (simp add: print_args_cout with_statuses_def)

lemma fork_statuses:
  "fork fr (with_statuses g w) = (fst (fork fr w), with_statuses g (snd (fork fr w)))"
  by (cases fr) (simp_all add: fork_def with_statuses_def)

lemma signal_statuses:
  "signal_SIGINT h (with_statuses g w) = with_statuses g (signal_SIGINT h w)"
  by (simp add: signal_SIGINT_def with_statuses_def)

lemma execvp_statuses:
  "execvp ex f argv (with_statuses g w) =
     (fst (execvp ex f argv w), with_statuses g (snd (execvp ex f argv w)))"
  by (simp add: execvp_def with_statuses_def)

lemma exit_statuses:
  "exit s (with_statuses g w) = (fst (exit s w), with_statuses g (snd (exit s w)))"
  by (simp add: exit_def with_statuses_def)

lemma getpid_statuses: "getpid (with_statuses g w) = getpid w"
  by (simp add: getpid_def with_statuses_def)

lemmas statuses =
  put_statuses print_args_statuses fork_statuses signal_statuses execvp_statuses
  exit_statuses getpid_statuses wait_statuses

lemma exec_command_statuses:
  "exec_command fr ex cmd (with_statuses g w) =
     (fst (exec_command fr ex cmd w), with_statuses g (snd (exec_command fr ex cmd w)))"
  by (simp add: exec_command_def Let_def case_prod_beta statuses split: option.splits)

lemma wait_calls:
  "fork_calls (calls (snd (wait w))) = fork_calls (calls w)"
  by (simp add: wait_def fork_calls_append split: option.splits prod.splits)

lemma exec_command_fork_calls:
  "fork_calls (calls (snd (exec_command fr ex cmd w))) = Suc (fork_calls (calls w))"
proof -
  have f: "fork_calls (calls (snd (fork fr v))) = Suc (fork_calls (calls v))" for v
    by (cases fr) (simp_all add: fork_def fork_calls_append)
  have p: "calls (put xs v) = calls v" for xs v by (simp add: put_def)
  have a: "calls (print_args as v) = calls v" for as v by (simp add: print_args_cout)
  have s: "fork_calls (calls (signal_SIGINT h v)) = fork_calls (calls v)" for h v
    by (simp add: signal_SIGINT_def fork_calls_append)
  have e: "fork_calls (calls (snd (execvp ex f argv v))) = fork_calls (calls v)" for f argv v
    by (simp add: execvp_def fork_calls_append)
  have x: "fork_calls (calls (snd (exit n v :: unit outcome \<times> world))) = fork_calls (calls v)" for n v
    by (simp add: exit_def fork_calls_append)
  show ?thesis
    by (simp add: exec_command_def Let_def case_prod_beta f p a s e x wait_calls
          split: option.splits)
qed

lemma parse_loop_grow:
  "parse_loop input i li parts = (li', parts') \<Longrightarrow>
     (li' = li \<and> parts' = parts) \<or> length parts < length parts'"
proof (induction input i li parts rule: parse_loop.induct)
  case (1 input i last_index parts)
  show ?case
  proof (cases "i < length input")
    case False
    with "1.prems" show ?thesis by (simp add: parse_loop.simps [of input i])
  next
    case True
    show ?thesis
    proof (cases "input ! i = CHR '' ''")
      case sp: True
      from "1.prems" True sp
      have "parse_loop input (i + 1) (i + 1)
              (parts @ [substr input last_index (i - last_index)]) = (li', parts')"
        by (simp add: parse_loop.simps [of input i])
      from "1.IH"(1) [OF True sp this] show ?thesis by auto
    next
      case nsp: False
      from "1.prems" True nsp
      have "parse_loop input (i + 1) last_index parts = (li', parts')"
        by (simp add: parse_loop.simps [of input i])
      from "1.IH"(2) [OF True nsp this] show ?thesis .
    qed
  qed
qed

lemma parse_input_throws: "parse_input s = Inl e \<Longrightarrow> s = [] \<and> e = ''Empty command''"
proof -
  assume a: "parse_input s = Inl e"
  obtain li ps where l: "parse_loop s 0 0 [] = (li, ps)" by (cases "parse_loop s 0 0 []")
  from parse_loop_grow [OF l] have g: "li = 0 \<and> ps = [] \<or> 0 < length ps" by simp
  from a l have e: "e = ''Empty command''"
    by (simp add: parse_input_def Let_def split: if_splits)
  from a l have n: "\<not> li < length s" and p: "ps = []"
    by (auto simp: parse_input_def Let_def split: if_splits)
  from g p have "li = 0" by simp
  with n have "s = []" by simp
  with e show ?thesis by simp
qed

lemma parse_input_empty: "parse_input [] = Inl ''Empty command''"
  by (simp add: parse_input_def parse_loop.simps)

section \<open>C1: what a launch reports\<close>

text \<open>
  C1, as stated, fails: \<^verbatim>\<open>exec_command\<close> returns \<^verbatim>\<open>void\<close> and calls
  \<^verbatim>\<open>wait(nullptr)\<close>, so nothing of the child's status reaches the caller. A child that
  exits with code 0 and a child killed by signal 2 leave the parent with the same result
  and in the same state.
\<close>

theorem exec_command_status_counterexample:
  "Exited 0 \<noteq> Signaled 2
   \<and> fst (exec_command (Parent 100) None \<lparr>file = ''true'', args = []\<rparr> (shell0 [(100, Exited 0)]))
       = Returns ()
   \<and> exec_command (Parent 100) None \<lparr>file = ''true'', args = []\<rparr> (shell0 [(100, Exited 0)])
     = exec_command (Parent 100) None \<lparr>file = ''true'', args = []\<rparr> (shell0 [(100, Signaled 2)])"
  by (simp add: exec_defs wait_def shell0_def)

text \<open>
  C1, amended: the result of \<^verbatim>\<open>exec_command\<close> and every part of the state it leaves
  are the same whatever statuses the children terminate with (only the statuses still
  to come differ), and each call makes exactly one call of \<^verbatim>\<open>fork\<close>.
\<close>

theorem exec_command_discards_status:
  "exec_command fr ex cmd (with_statuses g w) =
     (fst (exec_command fr ex cmd w), with_statuses g (snd (exec_command fr ex cmd w)))
   \<and> fork_calls (calls (snd (exec_command fr ex cmd w))) = Suc (fork_calls (calls w))"
  by (simp add: exec_command_statuses exec_command_fork_calls)

section \<open>C2: the SIGINT disposition around a launch\<close>

text \<open>
  C2, as stated, fails in its clause on the interval: SIGINT is not ignored exactly
  while the launched child is running and not waited for. In a shell with the default
  disposition and no child, a launch whose fork fails sets SIGINT to ignored although no
  child was created. And in a shell with the default disposition that has another child
  (99), the launch of 100 sets SIGINT back to the default when 99 terminates, while 100
  is still running and not waited for.
\<close>

theorem exec_command_sigint_counterexample:
  "sigint (shell0 []) = SIG_DFL
   \<and> children (shell0 []) = []
   \<and> calls (snd (exec_command Failed None \<lparr>file = ''cat'', args = []\<rparr> (shell0 []))) =
       [Fork (- 1), Signal_SIGINT SIG_IGN, Wait_any (Some (- 1)), Signal_SIGINT SIG_DFL]
   \<and> children (snd (exec_command Failed None \<lparr>file = ''cat'', args = []\<rparr> (shell0 []))) = []
   \<and> sigint ((shell0 [(99, Exited 0)])\<lparr>children := [99]\<rparr>) = SIG_DFL
   \<and> fst (exec_command (Parent 100) None \<lparr>file = ''cat'', args = []\<rparr>
        ((shell0 [(99, Exited 0)])\<lparr>children := [99]\<rparr>)) = Returns ()
   \<and> sigint (snd (exec_command (Parent 100) None \<lparr>file = ''cat'', args = []\<rparr>
        ((shell0 [(99, Exited 0)])\<lparr>children := [99]\<rparr>))) = SIG_DFL
   \<and> children (snd (exec_command (Parent 100) None \<lparr>file = ''cat'', args = []\<rparr>
        ((shell0 [(99, Exited 0)])\<lparr>children := [99]\<rparr>))) = [100]"
  by (simp add: exec_defs wait_def shell0_def)

text \<open>
  C2, amended: for every call of \<^verbatim>\<open>exec_command\<close> made with the default disposition
  of SIGINT, the disposition is the default again, its value before the launch, when the
  call returns. It is set to ignored only after the fork point, never before: the child
  has the disposition the parent had before the fork and changes none. In the process in
  which \<^verbatim>\<open>fork\<close> returned a value other than 0 (the parent, also after a failed
  fork) the calls of a launch are, in this order, the fork,
  \<^verbatim>\<open>signal(SIGINT, SIG_IGN)\<close>, the wait and, once the wait has returned,
  \<^verbatim>\<open>signal(SIGINT, SIG_DFL)\<close>: SIGINT is ignored from after the fork until the wait
  returns, whatever made it return, and stays ignored while the wait blocks. Every path
  on which the launch returns restores the disposition before.
\<close>

theorem exec_command_sigint:
  "(fork_value fr \<noteq> 0 \<longrightarrow>
      (fst (exec_command fr ex cmd w) = Returns ()
       \<and> sigint (snd (exec_command fr ex cmd w)) = SIG_DFL
       \<and> (\<exists>r. calls (snd (exec_command fr ex cmd w)) =
             calls w @ [Fork (fork_value fr), Signal_SIGINT SIG_IGN, Wait_any (Some r),
                        Signal_SIGINT SIG_DFL]))
      \<or> (fst (exec_command fr ex cmd w) = Blocks
          \<and> sigint (snd (exec_command fr ex cmd w)) = SIG_IGN
          \<and> calls (snd (exec_command fr ex cmd w)) =
              calls w @ [Fork (fork_value fr), Signal_SIGINT SIG_IGN, Wait_any None]))
   \<and> (sigint w = SIG_DFL \<and> fst (exec_command fr ex cmd w) = Returns () \<longrightarrow>
        sigint (snd (exec_command fr ex cmd w)) = sigint w)
   \<and> sigint (snd (exec_command (Child p) ex cmd w)) = sigint w
   \<and> calls (snd (exec_command (Child p) ex cmd w)) =
       calls w @ Fork 0 # Execvp (c_str (file cmd)) (build_argv cmd)
         # (case ex of None \<Rightarrow> [] | Some d \<Rightarrow> [Exit (- 1)])"
proof (intro conjI impI)
  assume nz: "fork_value fr \<noteq> 0"
  let ?R = "exec_command fr ex cmd w"
  show "(fst ?R = Returns () \<and> sigint (snd ?R) = SIG_DFL
       \<and> (\<exists>r. calls (snd ?R) =
             calls w @ [Fork (fork_value fr), Signal_SIGINT SIG_IGN, Wait_any (Some r),
                        Signal_SIGINT SIG_DFL]))
      \<or> (fst ?R = Blocks \<and> sigint (snd ?R) = SIG_IGN
          \<and> calls (snd ?R) =
              calls w @ [Fork (fork_value fr), Signal_SIGINT SIG_IGN, Wait_any None])"
  proof (cases fr)
    case Failed
    show ?thesis unfolding Failed
      apply (simp add: exec_defs fork_value_def split: prod.splits option.splits)
      apply (auto dest!: wait_None wait_Some)
      done
  next
    case (Parent q)
    with nz have "q \<noteq> 0" by (simp add: fork_value_def)
    then show ?thesis unfolding Parent
      apply (simp add: exec_defs fork_value_def split: prod.splits option.splits)
      apply (auto dest!: wait_None wait_Some)
      done
  next
    case (Child q)
    with nz show ?thesis by (simp add: fork_value_def)
  qed
next
  assume a: "sigint w = SIG_DFL \<and> fst (exec_command fr ex cmd w) = Returns ()"
  show "sigint (snd (exec_command fr ex cmd w)) = sigint w"
  proof (cases fr)
    case Failed
    from a show ?thesis unfolding Failed
      by (auto simp: exec_defs split: prod.splits option.splits dest!: wait_None wait_Some)
  next
    case (Parent q)
    show ?thesis
    proof (cases "q = 0")
      case True
      from a show ?thesis unfolding Parent True
        by (simp add: exec_defs split: option.splits)
    next
      case False
      with a show ?thesis unfolding Parent
        by (auto simp: exec_defs split: prod.splits option.splits dest!: wait_None wait_Some)
    qed
  next
    case (Child q)
    from a show ?thesis unfolding Child
      by (simp add: exec_defs split: option.splits)
  qed
next
  show "sigint (snd (exec_command (Child p) ex cmd w)) = sigint w"
    by (simp add: exec_defs split: option.splits)
next
  show "calls (snd (exec_command (Child p) ex cmd w)) =
       calls w @ Fork 0 # Execvp (c_str (file cmd)) (build_argv cmd)
         # (case ex of None \<Rightarrow> [] | Some d \<Rightarrow> [Exit (- 1)])"
    by (simp add: exec_defs split: option.splits)
qed

text \<open>A launch of \<^verbatim>\<open>cat\<close> that ends by an interrupt, in a shell started from a terminal.\<close>

theorem exec_command_sigint_witness:
  "fork_value (Parent 100) \<noteq> 0
   \<and> sigint (shell0 [(100, Signaled 2)]) = SIG_DFL
   \<and> fst (exec_command (Parent 100) None \<lparr>file = ''cat'', args = []\<rparr>
        (shell0 [(100, Signaled 2)])) = Returns ()
   \<and> sigint (snd (exec_command (Parent 100) None \<lparr>file = ''cat'', args = []\<rparr>
        (shell0 [(100, Signaled 2)]))) = sigint (shell0 [(100, Signaled 2)])
   \<and> calls (snd (exec_command (Parent 100) None \<lparr>file = ''cat'', args = []\<rparr>
        (shell0 [(100, Signaled 2)]))) =
       [Fork 100, Signal_SIGINT SIG_IGN, Wait_any (Some 100), Signal_SIGINT SIG_DFL]"
  using exec_command_sigint [of "Parent 100" None "\<lparr>file = ''cat'', args = []\<rparr>"
      "shell0 [(100, Signaled 2)]" 100]
  by (simp add: fork_value_def shell0_def exec_defs wait_def)

section \<open>C3: which child is waited for\<close>

text \<open>
  C3, as stated, fails: \<^verbatim>\<open>wait(nullptr)\<close> returns for any child. A shell that has
  another child (99, one the process had already when the image of the shell was
  started in it) besides the one it launches (100) returns from the launch when 99
  terminates, with 100 still running and not waited for.
\<close>

theorem wait_other_child_counterexample:
  "fst (exec_command (Parent 100) None \<lparr>file = ''cat'', args = []\<rparr>
      ((shell0 [(99, Exited 0), (100, Exited 0)])\<lparr>children := [99]\<rparr>)) = Returns ()
   \<and> calls (snd (exec_command (Parent 100) None \<lparr>file = ''cat'', args = []\<rparr>
      ((shell0 [(99, Exited 0), (100, Exited 0)])\<lparr>children := [99]\<rparr>)))
      = [Fork 100, Signal_SIGINT SIG_IGN, Wait_any (Some 99), Signal_SIGINT SIG_DFL]
   \<and> children (snd (exec_command (Parent 100) None \<lparr>file = ''cat'', args = []\<rparr>
      ((shell0 [(99, Exited 0), (100, Exited 0)])\<lparr>children := [99]\<rparr>))) = [100]
   \<and> pending (snd (exec_command (Parent 100) None \<lparr>file = ''cat'', args = []\<rparr>
      ((shell0 [(99, Exited 0), (100, Exited 0)])\<lparr>children := [99]\<rparr>))) = [(100, Exited 0)]"
  by (simp add: exec_defs wait_def shell0_def)

text \<open>
  C3, amended: where the launched child is the only child of the shell (it had none
  before the launch), the launch returns exactly if that child terminates, and the shell
  is then left without children; if the child never terminates the launch blocks. The
  wait that ends then returns that child's pid, except in a shell that was started with
  SIGCHLD ignored, where it fails with -1 once the child has ended.
\<close>

theorem wait_only_child:
  "children w = [] \<and> p \<noteq> 0 \<longrightarrow>
     (if p \<in> fst ` set (pending w) then
        fst (exec_command (Parent p) ex cmd w) = Returns ()
        \<and> children (snd (exec_command (Parent p) ex cmd w)) = []
        \<and> calls (snd (exec_command (Parent p) ex cmd w)) =
            calls w @ [Fork p, Signal_SIGINT SIG_IGN,
                       Wait_any (Some (if sigchld w = SIG_IGN then - 1 else p)),
                       Signal_SIGINT SIG_DFL]
      else
        fst (exec_command (Parent p) ex cmd w) = Blocks
        \<and> children (snd (exec_command (Parent p) ex cmd w)) = [p])"
proof (intro impI, elim conjE)
  assume c: "children w = []" and p: "p \<noteq> 0"
  show "(if p \<in> fst ` set (pending w) then
        fst (exec_command (Parent p) ex cmd w) = Returns ()
        \<and> children (snd (exec_command (Parent p) ex cmd w)) = []
        \<and> calls (snd (exec_command (Parent p) ex cmd w)) =
            calls w @ [Fork p, Signal_SIGINT SIG_IGN,
                       Wait_any (Some (if sigchld w = SIG_IGN then - 1 else p)),
                       Signal_SIGINT SIG_DFL]
      else
        fst (exec_command (Parent p) ex cmd w) = Blocks
        \<and> children (snd (exec_command (Parent p) ex cmd w)) = [p])"
  proof (cases "reap [p] (pending w)")
    case None
    then have "p \<notin> fst ` set (pending w)" by (auto simp: reap_None)
    with None c p show ?thesis by (simp add: exec_defs wait_def)
  next
    case (Some a)
    obtain q st r where a: "a = ((q, st), r)" by (metis prod.collapse)
    with Some have q: "q = p" using reap_member [of "[p]" "pending w" q st r] by simp
    from Some have "reap [p] (pending w) \<noteq> None" by simp
    then have "p \<in> fst ` set (pending w)" by (auto simp: reap_None)
    with Some a q c p show ?thesis by (simp add: exec_defs wait_def)
  qed
qed

text \<open>
  A launch of \<^verbatim>\<open>false\<close> that exits with 1, the same in a shell started with SIGCHLD
  ignored, and a launch of a child that never ends.
\<close>

theorem wait_only_child_witness:
  "children (shell0 [(100, Exited 1)]) = [] \<and> (100 :: int) \<noteq> 0
   \<and> 100 \<in> fst ` set (pending (shell0 [(100, Exited 1)]))
   \<and> fst (exec_command (Parent 100) None \<lparr>file = ''false'', args = []\<rparr>
        (shell0 [(100, Exited 1)])) = Returns ()
   \<and> calls (snd (exec_command (Parent 100) None \<lparr>file = ''false'', args = []\<rparr>
        (shell0 [(100, Exited 1)]))) =
       [Fork 100, Signal_SIGINT SIG_IGN, Wait_any (Some 100), Signal_SIGINT SIG_DFL]
   \<and> calls (snd (exec_command (Parent 100) None \<lparr>file = ''false'', args = []\<rparr>
        ((shell0 [(100, Exited 1)])\<lparr>sigchld := SIG_IGN\<rparr>))) =
       [Fork 100, Signal_SIGINT SIG_IGN, Wait_any (Some (- 1)), Signal_SIGINT SIG_DFL]
   \<and> children (snd (exec_command (Parent 100) None \<lparr>file = ''false'', args = []\<rparr>
        ((shell0 [(100, Exited 1)])\<lparr>sigchld := SIG_IGN\<rparr>))) = []
   \<and> fst (exec_command (Parent 100) None \<lparr>file = ''cat'', args = []\<rparr> (shell0 [])) = Blocks"
  using wait_only_child [of "shell0 [(100, Exited 1)]" 100 None "\<lparr>file = ''false'', args = []\<rparr>"]
    wait_only_child [of "(shell0 [(100, Exited 1)])\<lparr>sigchld := SIG_IGN\<rparr>" 100 None
      "\<lparr>file = ''false'', args = []\<rparr>"]
    wait_only_child [of "shell0 []" 100 None "\<lparr>file = ''cat'', args = []\<rparr>"]
  by (simp add: shell0_def)

section \<open>C4: a failed fork\<close>




section \<open>C5: a failed exec in the child\<close>

text \<open>
  C5, as stated, fails in one point: the diagnostic is written to \<^verbatim>\<open>cout\<close>, not to
  the error stream; \<^verbatim>\<open>cerr\<close> stays empty.
\<close>

theorem exec_failure_cerr_counterexample:
  "cerr (snd (exec_command (Child 101) (Some ''No such file or directory'')
       \<lparr>file = ''nonexistent_xyz'', args = []\<rparr> (shell0 []))) = []
   \<and> Str ''No such file or directory'' \<in> set (cout (snd (exec_command (Child 101)
       (Some ''No such file or directory'') \<lparr>file = ''nonexistent_xyz'', args = []\<rparr> (shell0 []))))"
  by (simp add: exec_command_def fork_def execvp_def exit_def put_def Let_def shell0_def DEBUG_def)

text \<open>
  C5, amended: where \<^verbatim>\<open>execvp\<close> fails, the child writes
  \<^verbatim>\<open>execvp failed with error: \<close> and the description of the error to its standard
  output, then calls \<^verbatim>\<open>exit(-1)\<close> (exit code 255, not 0). It does not return to the
  caller, writes nothing to \<^verbatim>\<open>cerr\<close>, and makes none of the parent's calls: its
  calls are the fork, the exec and the exit, its SIGINT disposition is unchanged.
\<close>

theorem exec_failure_diagnostic_on_cout:
  "fst (exec_command (Child p) (Some d) cmd w) = Exits (- 1)
   \<and> wexitstatus (- 1) = 255
   \<and> cout (snd (exec_command (Child p) (Some d) cmd w)) =
       cout (snd (exec_command (Child p) None cmd w))
         @ [Str ''execvp failed with error: '', Str d, Endl]
   \<and> cerr (snd (exec_command (Child p) (Some d) cmd w)) = cerr w
   \<and> calls (snd (exec_command (Child p) (Some d) cmd w)) =
       calls w @ [Fork 0, Execvp (c_str (file cmd)) (build_argv cmd), Exit (- 1)]
   \<and> sigint (snd (exec_command (Child p) (Some d) cmd w)) = sigint w"
  by (simp add: exec_command_def fork_def execvp_def exit_def put_def Let_def wexitstatus_def
        print_args_cout)

section \<open>C6: a failed wait\<close>

text \<open>
  C6, as stated, fails in its second half: the value of \<^verbatim>\<open>wait\<close> is dropped. Where
  the wait fails (here: no child, after a failed fork) the launch returns normally and
  nothing is reported.
\<close>

theorem wait_failure_counterexample:
  "Wait_any (Some (- 1)) \<in> set (calls (snd (exec_command Failed None
       \<lparr>file = ''sleep'', args = [''1'']\<rparr> (shell0 []))))
   \<and> fst (exec_command Failed None \<lparr>file = ''sleep'', args = [''1'']\<rparr> (shell0 [])) = Returns ()
   \<and> cerr (snd (exec_command Failed None \<lparr>file = ''sleep'', args = [''1'']\<rparr> (shell0 []))) = []"
  by (simp add: exec_defs wait_def shell0_def)

text \<open>
  C6, amended: if the wait of a launch fails (returns -1), the disposition of SIGINT is
  set to the default all the same, as the last call of the launch, and the failure is
  not surfaced: the launch returns normally and writes nothing to \<^verbatim>\<open>cerr\<close>.
\<close>

theorem wait_failure_ignored:
  "Wait_any (Some (- 1)) \<in> set (drop (length (calls w)) (calls (snd (exec_command fr ex cmd w))))
   \<longrightarrow> fst (exec_command fr ex cmd w) = Returns ()
       \<and> sigint (snd (exec_command fr ex cmd w)) = SIG_DFL
       \<and> last (calls (snd (exec_command fr ex cmd w))) = Signal_SIGINT SIG_DFL
       \<and> cerr (snd (exec_command fr ex cmd w)) = cerr w"
proof (cases fr)
  case Failed
  show ?thesis unfolding Failed
    apply (simp add: exec_defs split: prod.splits option.splits)
    apply (auto dest!: wait_None wait_Some)
    done
next
  case (Parent q)
  show ?thesis
  proof (cases "q = 0")
    case True
    show ?thesis unfolding Parent True
      by (simp add: exec_defs split: option.splits)
  next
    case False
    then show ?thesis unfolding Parent
      apply (simp add: exec_defs split: prod.splits option.splits)
      apply (auto dest!: wait_None wait_Some)
      done
  qed
next
  case (Child q)
  show ?thesis unfolding Child
    by (simp add: exec_defs split: option.splits)
qed

text \<open>The wait that fails because the fork failed and there is no child.\<close>

theorem wait_failure_ignored_witness:
  "Wait_any (Some (- 1)) \<in> set (drop (length (calls (shell0 [])))
       (calls (snd (exec_command Failed None \<lparr>file = ''ls'', args = []\<rparr> (shell0 [])))))
   \<and> fst (exec_command Failed None \<lparr>file = ''ls'', args = []\<rparr> (shell0 [])) = Returns ()
   \<and> sigint (snd (exec_command Failed None \<lparr>file = ''ls'', args = []\<rparr> (shell0 []))) = SIG_DFL
   \<and> cerr (snd (exec_command Failed None \<lparr>file = ''ls'', args = []\<rparr> (shell0 []))) = []"
proof -
  have h: "Wait_any (Some (- 1)) \<in> set (drop (length (calls (shell0 [])))
       (calls (snd (exec_command Failed None \<lparr>file = ''ls'', args = []\<rparr> (shell0 [])))))"
    by (simp add: exec_defs wait_def shell0_def)
  from h wait_failure_ignored [of "shell0 []" Failed None "\<lparr>file = ''ls'', args = []\<rparr>"]
  show ?thesis by (simp add: shell0_def)
qed

section \<open>C7: the argument vector\<close>

text \<open>
  C7, as stated, fails for a command that holds a NUL byte: the pointers of
  \<^verbatim>\<open>c_str()\<close> are read by \<^verbatim>\<open>execvp\<close> as C strings, which end at the first NUL.
  The input line below (\<^verbatim>\<open>getline\<close> and \<^verbatim>\<open>parse_input\<close> pass the NUL bytes on)
  gives a command whose file name and argument reach \<^verbatim>\<open>execvp\<close> cut short.
\<close>

theorem exec_command_argv_counterexample:
  "parse_input (''ec'' @ [CHR 0x00] @ ''ho h'' @ [CHR 0x00] @ ''i'') =
     Inr \<lparr>file = ''ec'' @ [CHR 0x00] @ ''ho'', args = [''h'' @ [CHR 0x00] @ ''i'']\<rparr>
   \<and> calls (snd (exec_command (Child 101) None
        \<lparr>file = ''ec'' @ [CHR 0x00] @ ''ho'', args = [''h'' @ [CHR 0x00] @ ''i'']\<rparr> (shell0 []))) =
      [Fork 0, Execvp (CStr ''ec'') [CStr ''ec'', CStr ''h'', nullptr]]
   \<and> [CStr ''ec'', CStr ''h'', nullptr] \<noteq>
      [CStr (''ec'' @ [CHR 0x00] @ ''ho''), CStr (''h'' @ [CHR 0x00] @ ''i''), nullptr]"
  by (simp add: parse_input_def parse_loop.simps substr_def exec_defs build_argv_eq
        c_str_def shell0_def)

text \<open>
  C7, amended: for every command whose file name and arguments hold no NUL byte, the
  child (the process in which \<^verbatim>\<open>fork\<close> returned 0) makes one call of
  \<^verbatim>\<open>execvp\<close>, right after the fork, and the argument vector of that call is exactly
  the file name, then the arguments in their order, then the null pointer. For every
  command whatever, the vector has this shape with each string read up to its first NUL
  byte. Where the call fails, \<^verbatim>\<open>exit(-1)\<close> follows.
\<close>

theorem exec_command_argv:
  "calls (snd (exec_command (Child p) ex cmd w)) =
     calls w @ [Fork 0, Execvp (c_str (file cmd)) (c_str (file cmd) # map c_str (args cmd) @ [nullptr])]
       @ (case ex of None \<Rightarrow> [] | Some d \<Rightarrow> [Exit (- 1)])
   \<and> (CHR 0x00 \<notin> set (file cmd) \<and> (\<forall>a \<in> set (args cmd). CHR 0x00 \<notin> set a) \<longrightarrow>
       calls (snd (exec_command (Child p) ex cmd w)) =
         calls w @ [Fork 0, Execvp (CStr (file cmd)) (CStr (file cmd) # map CStr (args cmd) @ [nullptr])]
           @ (case ex of None \<Rightarrow> [] | Some d \<Rightarrow> [Exit (- 1)]))"
proof (intro conjI impI)
  show g: "calls (snd (exec_command (Child p) ex cmd w)) =
     calls w @ [Fork 0, Execvp (c_str (file cmd)) (c_str (file cmd) # map c_str (args cmd) @ [nullptr])]
       @ (case ex of None \<Rightarrow> [] | Some d \<Rightarrow> [Exit (- 1)])"
    by (simp add: exec_command_def fork_def execvp_def exit_def put_def print_args_cout
        build_argv_eq Let_def split: option.splits)
  assume n: "CHR 0x00 \<notin> set (file cmd) \<and> (\<forall>a \<in> set (args cmd). CHR 0x00 \<notin> set a)"
  have c: "c_str s = CStr s" if "CHR 0x00 \<notin> set s" for s
    using that by (auto simp: c_str_def takeWhile_eq_all_conv)
  from n have f: "c_str (file cmd) = CStr (file cmd)" by (simp add: c)
  from n have m: "map c_str (args cmd) = map CStr (args cmd)" by (simp add: c)
  show "calls (snd (exec_command (Child p) ex cmd w)) =
         calls w @ [Fork 0, Execvp (CStr (file cmd)) (CStr (file cmd) # map CStr (args cmd) @ [nullptr])]
           @ (case ex of None \<Rightarrow> [] | Some d \<Rightarrow> [Exit (- 1)])"
    unfolding g f m ..
qed

text \<open>The launch of \<^verbatim>\<open>echo hello\<close>.\<close>

theorem exec_command_argv_witness:
  "CHR 0x00 \<notin> set ''echo'' \<and> CHR 0x00 \<notin> set ''hello''
   \<and> calls (snd (exec_command (Child 101) None \<lparr>file = ''echo'', args = [''hello'']\<rparr>
        (shell0 []))) =
      [Fork 0, Execvp (CStr ''echo'') [CStr ''echo'', CStr ''hello'', nullptr]]"
  using exec_command_argv [of 101 None "\<lparr>file = ''echo'', args = [''hello'']\<rparr>" "shell0 []"]
  by (simp add: shell0_def c_str_def)

section \<open>C8: the executable of a parsed command\<close>

text \<open>
  C8 fails on the code: every space ends a token, also an empty one. A line that starts
  with a space is parsed to a command whose \<^verbatim>\<open>file\<close> is the empty string, although
  \<^verbatim>\<open>parse_input\<close> means to reject an empty command.
\<close>

theorem parse_input_leading_space:
  "parse_input '' a'' = Inr \<lparr>file = [], args = [''a'']\<rparr>"
  by (simp add: parse_input_def parse_loop.simps substr_def)

section \<open>C9: errors and the prompt loop\<close>

text \<open>
  C9, as stated, fails: the \<^verbatim>\<open>try\<close> block is around the loop, not inside it. An
  empty first line ends \<^verbatim>\<open>main\<close> with the message on \<^verbatim>\<open>cerr\<close>; the line after it
  is never read and nothing is launched.
\<close>

theorem empty_line_counterexample:
  "main (\<lambda>n. (Parent 100, None)) \<lparr>buf = [CHR 0x0A] @ ''ls'' @ [CHR 0x0A], eofbit = False\<rparr>
      (shell0 [(100, Exited 0)])
   = (Returns 0, \<lparr>buf = ''ls'' @ [CHR 0x0A], eofbit = False\<rparr>,
      (shell0 [(100, Exited 0)])\<lparr>cout := [Str ''> ''],
          cerr := [Str ''Fatal error: '', Str ''Empty command'', Endl]\<rparr>)"
  by (simp add: main_def main_loop.simps repl_loop_def getline_def parse_input_empty
        put_def shell0_def)

text \<open>
  C9, amended: an empty line, in any iteration, ends the loop with the exception
  \<^verbatim>\<open>Empty command\<close>; \<^verbatim>\<open>main\<close> then writes \<^verbatim>\<open>Fatal error: \<close> and the message to
  \<^verbatim>\<open>cerr\<close> and returns. The empty line is the only line \<^verbatim>\<open>parse_input\<close> rejects.
  A launch in the parent raises nothing, whatever fails in it: unless its wait blocks,
  the loop goes on with the rest of the input.
\<close>

theorem empty_line_is_fatal:
  "(\<not> eofbit ins \<and> fst (getline ins) = [] \<longrightarrow>
      main_loop os n ins w = (Throws ''Empty command'', snd (getline ins), put [Str ''> ''] w))
   \<and> (main_loop os 0 ins w = (Throws e, ins', w') \<longrightarrow>
      main os ins w =
        (Returns 0, ins', w'\<lparr>cerr := cerr w' @ [Str ''Fatal error: '', Str e, Endl]\<rparr>))
   \<and> (parse_input s = Inl e \<longrightarrow> s = [] \<and> e = ''Empty command'')
   \<and> (\<not> eofbit ins \<and> parse_input (fst (getline ins)) = Inr cmd \<and> file cmd \<noteq> ''exit''
        \<and> fork_value (fst (os n)) \<noteq> 0 \<longrightarrow>
      fst (main_loop os n ins w) = Blocks
      \<or> main_loop os n ins w =
          main_loop os (Suc n) (snd (getline ins))
            (snd (exec_command (fst (os n)) (snd (os n)) cmd (put [Str ''> ''] w))))"
proof (intro conjI impI)
  assume "\<not> eofbit ins \<and> fst (getline ins) = []"
  then show "main_loop os n ins w =
      (Throws ''Empty command'', snd (getline ins), put [Str ''> ''] w)"
    by (simp add: main_loop.simps [of os n ins w] repl_loop_def Let_def case_prod_beta
          parse_input_empty)
next
  assume "main_loop os 0 ins w = (Throws e, ins', w')"
  then show "main os ins w =
        (Returns 0, ins', w'\<lparr>cerr := cerr w' @ [Str ''Fatal error: '', Str e, Endl]\<rparr>)"
    by (simp add: main_def)
next
  assume "parse_input s = Inl e"
  then show "s = []" by (simp add: parse_input_throws)
next
  assume "parse_input s = Inl e"
  then show "e = ''Empty command''" by (simp add: parse_input_throws)
next
  assume a: "\<not> eofbit ins \<and> parse_input (fst (getline ins)) = Inr cmd \<and> file cmd \<noteq> ''exit''
        \<and> fork_value (fst (os n)) \<noteq> 0"
  let ?R = "exec_command (fst (os n)) (snd (os n)) cmd (put [Str ''> ''] w)"
  have r: "fst ?R = Returns () \<or> fst ?R = Blocks"
  proof (cases "fst (os n)")
    case Failed
    show ?thesis unfolding Failed
      by (simp add: exec_defs split: prod.splits option.splits)
  next
    case (Parent q)
    with a have "q \<noteq> 0" by (simp add: fork_value_def)
    then show ?thesis unfolding Parent
      by (simp add: exec_defs split: prod.splits option.splits)
  next
    case (Child q)
    with a show ?thesis by (simp add: fork_value_def)
  qed
  from a have m: "main_loop os n ins w =
      (case (map_outcome (\<lambda>_. True) (fst ?R), snd (getline ins), snd ?R) of
         (Returns True, ins', w') \<Rightarrow> main_loop os (Suc n) ins' w'
       | (Returns False, ins', w') \<Rightarrow> (Returns (), ins', w')
       | (out, ins', w') \<Rightarrow> (map_outcome (\<lambda>_. ()) out, ins', w'))"
    by (simp add: main_loop.simps [of os n ins w] repl_loop_def Let_def case_prod_beta)
  from r show "fst (main_loop os n ins w) = Blocks
      \<or> main_loop os n ins w = main_loop os (Suc n) (snd (getline ins)) (snd ?R)"
  proof
    assume "fst ?R = Returns ()"
    with m show ?thesis by simp
  next
    assume "fst ?R = Blocks"
    with m show ?thesis by simp
  qed
qed

text \<open>An empty first line before \<^verbatim>\<open>ls\<close>; and the line \<^verbatim>\<open>ls\<close> with a failing fork, after which \<^verbatim>\<open>pwd\<close> is read.\<close>

theorem empty_line_is_fatal_witness:
  "\<not> eofbit \<lparr>buf = [CHR 0x0A] @ ''ls'', eofbit = False\<rparr>
   \<and> fst (getline \<lparr>buf = [CHR 0x0A] @ ''ls'', eofbit = False\<rparr>) = []
   \<and> main_loop (\<lambda>n. (Parent 100, None)) 0 \<lparr>buf = [CHR 0x0A] @ ''ls'', eofbit = False\<rparr>
        (shell0 []) =
      (Throws ''Empty command'', \<lparr>buf = ''ls'', eofbit = False\<rparr>, put [Str ''> ''] (shell0 []))
   \<and> main (\<lambda>n. (Parent 100, None)) \<lparr>buf = [CHR 0x0A] @ ''ls'', eofbit = False\<rparr> (shell0 []) =
      (Returns 0, \<lparr>buf = ''ls'', eofbit = False\<rparr>,
       (put [Str ''> ''] (shell0 []))\<lparr>cerr := [Str ''Fatal error: '', Str ''Empty command'', Endl]\<rparr>)
   \<and> parse_input [] = Inl ''Empty command''
   \<and> parse_input (fst (getline \<lparr>buf = ''ls'' @ [CHR 0x0A] @ ''pwd'', eofbit = False\<rparr>)) =
       Inr \<lparr>file = ''ls'', args = []\<rparr>
   \<and> fork_value (fst (Failed, None :: string option)) \<noteq> 0
   \<and> main_loop (\<lambda>n. (Failed, None)) 0 \<lparr>buf = ''ls'' @ [CHR 0x0A] @ ''pwd'', eofbit = False\<rparr>
        (shell0 []) =
      main_loop (\<lambda>n. (Failed, None)) (Suc 0) \<lparr>buf = ''pwd'', eofbit = False\<rparr>
        (snd (exec_command Failed None \<lparr>file = ''ls'', args = []\<rparr> (put [Str ''> ''] (shell0 []))))"
proof -
  let ?i1 = "\<lparr>buf = [CHR 0x0A] @ ''ls'', eofbit = False\<rparr>"
  let ?i2 = "\<lparr>buf = ''ls'' @ [CHR 0x0A] @ ''pwd'', eofbit = False\<rparr>"
  let ?os1 = "\<lambda>n::nat. (Parent 100, None :: string option)"
  let ?os2 = "\<lambda>n::nat. (Failed, None :: string option)"
  let ?c = "\<lparr>file = ''ls'', args = []\<rparr>"
  have g1: "getline ?i1 = ([], \<lparr>buf = ''ls'', eofbit = False\<rparr>)"
    by (simp add: getline_def)
  have g2: "getline ?i2 = (''ls'', \<lparr>buf = ''pwd'', eofbit = False\<rparr>)"
    by (simp add: getline_def)
  have p2: "parse_input ''ls'' = Inr ?c"
    by (simp add: parse_input_def parse_loop.simps)
  have fv: "fork_value Failed \<noteq> 0" by (simp add: fork_value_def)
  have nb: "fst (exec_command Failed None ?c (put [Str ''> ''] (shell0 []))) = Returns ()"
    by (simp add: exec_defs wait_def shell0_def)
  have a: "main_loop ?os1 0 ?i1 (shell0 []) =
      (Throws ''Empty command'', \<lparr>buf = ''ls'', eofbit = False\<rparr>, put [Str ''> ''] (shell0 []))"
    using empty_line_is_fatal [of ?i1 ?os1 0 "shell0 []"] g1 by simp
  have b: "main ?os1 ?i1 (shell0 []) =
      (Returns 0, \<lparr>buf = ''ls'', eofbit = False\<rparr>,
       (put [Str ''> ''] (shell0 []))\<lparr>cerr := [Str ''Fatal error: '', Str ''Empty command'', Endl]\<rparr>)"
    using empty_line_is_fatal [of ?i1 ?os1 0 "shell0 []" "''Empty command''"
        "\<lparr>buf = ''ls'', eofbit = False\<rparr>" "put [Str ''> ''] (shell0 [])"] a
    by (simp add: put_def shell0_def)
  have c: "parse_input [] = Inl ''Empty command''"
    using empty_line_is_fatal [of ?i1 ?os1 0 "shell0 []" "''Empty command''"
        "\<lparr>buf = ''ls'', eofbit = False\<rparr>" "put [Str ''> ''] (shell0 [])" "[]"]
    by (simp add: parse_input_def parse_loop.simps)
  have d0: "fst (main_loop ?os2 0 ?i2 (shell0 [])) \<noteq> Blocks"
    by (simp add: main_loop.simps repl_loop_def getline_def parse_input_def
          parse_loop.simps substr_def exec_defs wait_def shell0_def)
  have d: "main_loop ?os2 0 ?i2 (shell0 []) =
      main_loop ?os2 (Suc 0) \<lparr>buf = ''pwd'', eofbit = False\<rparr>
        (snd (exec_command Failed None ?c (put [Str ''> ''] (shell0 []))))"
    using empty_line_is_fatal [of ?i2 ?os2 0 "shell0 []" _ _ _ _ ?c] g2 p2 fv d0 by simp
  from g1 g2 p2 fv a b c d show ?thesis by simp
qed

section \<open>C10: the exit status of a failed exec\<close>

text \<open>
  C10. Where \<^verbatim>\<open>execvp\<close> fails the child ends with \<^verbatim>\<open>exit(-1)\<close>; the exit code its
  parent can read is 255, the same as for a program that itself exits with 255.
\<close>

theorem exec_failure_status_255:
  "fst (exec_command (Child p) (Some d) cmd w) = Exits (- 1)
   \<and> observed (fst (exec_command (Child p) (Some d) cmd w)) = Some (Exited 255)
   \<and> observed (Exits 255 :: unit outcome) = observed (fst (exec_command (Child p) (Some d) cmd w))"
  by (simp add: exec_command_def fork_def execvp_def exit_def Let_def wexitstatus_def)

end
